theory Spec2Isabelle
  imports Complex_Main "HOL-Library.Word" "HOL-Library.Signed_Division"
begin

section \<open>Data model\<close>

text \<open>
  The four managers that \<open>GameManager::startUp\<close> brings up, named as in
  \<open>GameManager.cpp\<close>: \<open>LogManager\<close> (the diagnostic sink), \<open>IM\<close> (input),
  \<open>EM\<close> (entity-component) and \<open>SEM\<close> (persistence).
\<close>

datatype manager = LogManager | InputManager | ECSManager | SerialisationManager

text \<open>An argument passed to \<open>writeLog\<close> after the format string.\<close>

datatype log_arg = ArgInt int | ArgStr string

text \<open>
  What the game manager does to the outside, in program order: every call on a
  collaborator, with the value the collaborator answered where the code reads it, and every
  assignment to \<open>m_game_over\<close>, the flag a driver loop polls through
  \<open>getGameOver\<close>. The frame time is a C++ \<open>float\<close> that the code only hands on, so
  its type is left open as \<open>'f\<close>.
\<close>

datatype 'f event =
    ManagerStartUp int
  | ManagerShutDown
  | StartUp manager int
  | ShutDown manager
  | WriteLog string "log_arg list"
  | RegisterSystem bool
  | LoadScene string bool
  | SaveScene string bool
  | IsKeyJustPressed int bool
  | UpdateSystems 'f
  | AssignGameOver bool

text \<open>
  The members of \<open>GameManager\<close> that \<open>GameManager.cpp\<close> reads and writes.
  \<open>m_step_count\<close> is a C++ \<open>int\<close> (\<open>getStepCount\<close> returns it as \<open>int\<close>, and
  it is printed with \<open>%d\<close>): a 32-bit word read as two's complement, whose increment
  wraps around where the C++ standard leaves signed overflow undefined. The running flag of
  the specification is the negation of \<open>m_game_over\<close>.
\<close>

record 'f GameManager =
  m_game_over :: bool
  m_step_count :: "32 word"
  trace :: "'f event list"

text \<open>
  What the collaborators answer during one call of \<open>startUp\<close>: the return codes of the
  parent's and of each manager's \<open>startUp\<close> (non-zero is failure), whether
  \<open>registerSystem\<close> returned a handle, the path \<open>getAssetFilePath\<close> resolved, and the
  results of the first \<open>loadScene\<close>, of \<open>saveScene\<close> and of the second
  \<open>loadScene\<close>.
\<close>

record startUp_env =
  Manager_startUp :: int
  mgr_startUp :: "manager \<Rightarrow> int"
  registerSystem :: bool
  scenePath :: string
  loadScene_first :: bool
  saveScene_result :: bool
  loadScene_retry :: bool

text \<open>The key code of the escape key in the GLFW headers.\<close>

definition GLFW_KEY_ESCAPE :: int where
  "GLFW_KEY_ESCAPE = 256"

section \<open>Operations\<close>

definition emit :: "'f event \<Rightarrow> 'f GameManager \<Rightarrow> 'f GameManager" where
  "emit e s = s\<lparr>trace := trace s @ [e]\<rparr>"

definition writeLog :: "string \<Rightarrow> log_arg list \<Rightarrow> 'f GameManager \<Rightarrow> 'f GameManager" where
  "writeLog fmt args s = emit (WriteLog fmt args) s"

text \<open>The constructor: \<open>m_game_over = false; m_step_count = 0\<close>.\<close>

definition GameManager_new :: "'f GameManager" where
  "GameManager_new = \<lparr>m_game_over = False, m_step_count = 0, trace = []\<rparr>"

definition setGameOver :: "bool \<Rightarrow> 'f GameManager \<Rightarrow> 'f GameManager" where
  "setGameOver new_game_over s =
     (let s1 = emit (AssignGameOver new_game_over) (s\<lparr>m_game_over := new_game_over\<rparr>)
      in if new_game_over
         then writeLog ''GameManager::setGameOver() - Game over set to true'' [] s1
         else s1)"

text \<open>
  Modelled from the spec: the default argument of \<open>setGameOver\<close>, declared in
  \<open>GameManager.h\<close>, which is not among the sources. \<open>shutDown\<close> calls
  \<open>setGameOver()\<close> under the comment "Set game over", and the specification says that
  \<open>shutDown\<close> forces the running flag to false first: the default is \<open>true\<close>.
\<close>

definition setGameOver_default :: bool where
  "setGameOver_default = True"

definition getGameOver :: "'f GameManager \<Rightarrow> bool" where
  "getGameOver s = m_game_over s"

definition getStepCount :: "'f GameManager \<Rightarrow> int" where
  "getStepCount s = sint (m_step_count s)"

definition isValid :: "string \<Rightarrow> bool" where
  "isValid event_name = (event_name = ''step'')"

text \<open>The running flag of the specification.\<close>

definition running :: "'f GameManager \<Rightarrow> bool" where
  "running s = (\<not> getGameOver s)"

definition startUp :: "startUp_env \<Rightarrow> 'f GameManager \<Rightarrow> int \<times> 'f GameManager" where
  "startUp env s0 =
     (let s1 = emit (ManagerStartUp (Manager_startUp env)) s0 in
      if Manager_startUp env \<noteq> 0 then (- 1, s1)
      else
      let s2 = emit (StartUp LogManager (mgr_startUp env LogManager)) s1 in
      if mgr_startUp env LogManager \<noteq> 0 then (- 1, s2)
      else
      let s3 = writeLog ''GameManager::startUp() - LogManager started successfully'' [] s2;
          s4 = emit (StartUp InputManager (mgr_startUp env InputManager)) s3 in
      if mgr_startUp env InputManager \<noteq> 0
      then (- 1,
            emit (ShutDown LogManager)
              (writeLog ''GameManager::startUp() - Failed to start InputManager'' [] s4))
      else
      let s5 = writeLog ''GameManager::startUp() - InputManager started successfully'' [] s4;
          s6 = emit (StartUp ECSManager (mgr_startUp env ECSManager)) s5 in
      if mgr_startUp env ECSManager \<noteq> 0
      then (- 1,
            emit (ShutDown LogManager)
              (emit (ShutDown InputManager)
                (writeLog ''GameManager::startUp() - Failed to start ECSManager'' [] s6)))
      else
      let s7 = writeLog ''GameManager::startUp() - ECSManager started successfully'' [] s6;
          s8 = emit (StartUp SerialisationManager (mgr_startUp env SerialisationManager)) s7 in
      if mgr_startUp env SerialisationManager \<noteq> 0
      then (- 1,
            emit (ShutDown LogManager)
              (emit (ShutDown InputManager)
                (emit (ShutDown ECSManager)
                  (writeLog ''GameManager::startUp() - Failed to start SerialisationManager''
                     [] s8))))
      else
      let s9 = writeLog ''GameManager::startUp() - SerialisationManager started successfully''
                 [] s8;
          s10 = emit (RegisterSystem (registerSystem env)) s9;
          s11 = (if \<not> registerSystem env
                 then writeLog ''GameManager::startUp() - Failed to register InputSystem'' [] s10
                 else writeLog ''GameManager::startUp() - InputSystem registered successfully''
                        [] s10);
          s12 = emit (LoadScene (scenePath env) (loadScene_first env)) s11;
          s13 = (if loadScene_first env
                 then writeLog ''GameManager::startUp() - Scene loaded successfully from %s''
                        [ArgStr (scenePath env)] s12
                 else
                   let t1 = writeLog
                              ''GameManager::startUp() - Failed to load scene, creating default scene''
                              [] s12;
                       t2 = emit (SaveScene (scenePath env) (saveScene_result env)) t1;
                       t3 = emit (LoadScene (scenePath env) (loadScene_retry env)) t2
                   in if loadScene_retry env
                      then writeLog ''GameManager::startUp() - Default scene loaded successfully''
                             [] t3
                      else writeLog
                             ''GameManager::startUp() - WARNING: Failed to load default scene''
                             [] t3);
          s14 = s13\<lparr>m_step_count := 0\<rparr>;
          s15 = emit (AssignGameOver False) (s14\<lparr>m_game_over := False\<rparr>)
      in (0, s15))"

definition shutDown :: "'f GameManager \<Rightarrow> 'f GameManager" where
  "shutDown s0 =
     (let s1 = writeLog ''GameManager::shutDown() - Shutting down GameManager'' [] s0;
          s2 = setGameOver setGameOver_default s1;
          s3 = emit (ShutDown SerialisationManager) s2;
          s4 = emit (ShutDown ECSManager) s3;
          s5 = emit (ShutDown InputManager) s4;
          s6 = emit (ShutDown LogManager) s5
      in emit ManagerShutDown s6)"

text \<open>
  One frame. \<open>isKeyJustPressed\<close> is the input manager's answer for each key code during
  this frame; \<open>%\<close> on C++ \<open>int\<close> truncates towards zero, which is \<open>smod\<close>.
\<close>

definition update :: "(int \<Rightarrow> bool) \<Rightarrow> 'f \<Rightarrow> 'f GameManager \<Rightarrow> 'f GameManager" where
  "update isKeyJustPressed dt s0 =
     (let s1 = s0\<lparr>m_step_count := m_step_count s0 + 1\<rparr>;
          s2 = (if sint (m_step_count s1) smod 100 = 0
                then writeLog ''GameManager::update() - Step count: %d''
                       [ArgInt (sint (m_step_count s1))] s1
                else s1);
          s3 = emit (IsKeyJustPressed GLFW_KEY_ESCAPE (isKeyJustPressed GLFW_KEY_ESCAPE)) s2;
          s4 = (if isKeyJustPressed GLFW_KEY_ESCAPE
                then writeLog ''GameManager::update() - Escape key pressed, setting game over''
                       [] (setGameOver True s3)
                else s3)
      in emit (UpdateSystems dt) s4)"

text \<open>A run of frames: \<open>update\<close> called once per frame, in order.\<close>

type_synonym 'f frame = "(int \<Rightarrow> bool) \<times> 'f"

fun updates :: "'f frame list \<Rightarrow> 'f GameManager \<Rightarrow> 'f GameManager" where
  "updates [] s = s"
| "updates (fr # frs) s = updates frs (update (fst fr) (snd fr) s)"

text \<open>
  The public operations of \<open>GameManager.cpp\<close> as calls, and their effect on the game
  manager. The getters and \<open>isValid\<close> are \<open>const\<close> member functions: they leave the
  object as it is.
\<close>

datatype 'f call =
    CallStartUp startUp_env
  | CallUpdate "int \<Rightarrow> bool" 'f
  | CallShutDown
  | CallSetGameOver bool
  | CallGetGameOver
  | CallGetStepCount
  | CallGetFrameTime
  | CallIsValid string

fun exec :: "'f call \<Rightarrow> 'f GameManager \<Rightarrow> 'f GameManager" where
  "exec (CallStartUp env) s = snd (startUp env s)"
| "exec (CallUpdate keys dt) s = update keys dt s"
| "exec CallShutDown s = shutDown s"
| "exec (CallSetGameOver b) s = setGameOver b s"
| "exec CallGetGameOver s = s"
| "exec CallGetStepCount s = s"
| "exec CallGetFrameTime s = s"
| "exec (CallIsValid n) s = s"

fun run :: "'f call list \<Rightarrow> 'f GameManager \<Rightarrow> 'f GameManager" where
  "run [] s = s"
| "run (c # cs) s = run cs (exec c s)"

section \<open>Notions used to state the properties\<close>

text \<open>The order in which \<open>startUp\<close> starts the managers.\<close>

definition startup_order :: "manager list" where
  "startup_order = [LogManager, InputManager, ECSManager, SerialisationManager]"

text \<open>The events an operation appended to the trace.\<close>

definition added :: "'f GameManager \<Rightarrow> 'f GameManager \<Rightarrow> 'f event list" where
  "added s s' = drop (length (trace s)) (trace s')"

fun is_lifecycle :: "'f event \<Rightarrow> bool" where
  "is_lifecycle (StartUp m rc) = True"
| "is_lifecycle (ShutDown m) = True"
| "is_lifecycle e = False"

fun is_scene :: "'f event \<Rightarrow> bool" where
  "is_scene (LoadScene p r) = True"
| "is_scene (SaveScene p r) = True"
| "is_scene e = False"

fun is_heartbeat :: "'f event \<Rightarrow> bool" where
  "is_heartbeat (WriteLog fmt args) = (fmt = ''GameManager::update() - Step count: %d'')"
| "is_heartbeat e = False"

text \<open>
  Modelled from the spec: the subsystem contract, whose implementations are not among the
  sources. A manager runs from a \<open>startUp\<close> that returned 0 until its next
  \<open>shutDown\<close>. \<open>left_running es ms\<close> is the list of managers running after the events
  \<open>es\<close> when \<open>ms\<close> were running before.
\<close>

fun left_running :: "'f event list \<Rightarrow> manager list \<Rightarrow> manager list" where
  "left_running [] ms = ms"
| "left_running (StartUp m rc # es) ms = left_running es (if rc = 0 then m # ms else ms)"
| "left_running (ShutDown m # es) ms = left_running es (removeAll m ms)"
| "left_running (e # es) ms = left_running es ms"

text \<open>
  The calls after which the specification's running flag may be true again: a
  \<open>startUp\<close>, and \<open>setGameOver(false)\<close>.
\<close>

fun may_resume :: "'f call \<Rightarrow> bool" where
  "may_resume (CallStartUp env) = True"
| "may_resume (CallSetGameOver b) = (\<not> b)"
| "may_resume c = False"

section \<open>Clock\<close>

text \<open>
  \<open>Clock.h\<close> declares one member, \<open>int64_t m_previous_time\<close>, and the two member
  functions; \<open>Clock.cpp\<close> is not among the sources.
\<close>

record Clock =
  m_previous_time :: "64 word"

text \<open>
  Modelled from the spec: the body of \<open>Clock::delta\<close>. It returns the microseconds
  elapsed since the previous call to \<open>delta\<close> (or construction), or -1 on measurement
  failure, and resets the reference point to now. The reading of the time source is the
  argument: \<open>None\<close> when the measurement fails, in which case the reference point is
  kept.
\<close>

definition Clock_delta :: "64 word option \<Rightarrow> Clock \<Rightarrow> 64 word \<times> Clock" where
  "Clock_delta now c =
     (case now of
        None \<Rightarrow> (- 1, c)
      | Some t \<Rightarrow> (t - m_previous_time c, c\<lparr>m_previous_time := t\<rparr>))"

text \<open>
  Modelled from the spec: the body of \<open>Clock::split\<close>, declared \<open>const\<close> in
  \<open>Clock.h\<close>. It returns the microseconds elapsed since the last \<open>delta\<close> reset, or
  -1 on failure, and does not reset.
\<close>

definition Clock_split :: "64 word option \<Rightarrow> Clock \<Rightarrow> 64 word \<times> Clock" where
  "Clock_split now c =
     (case now of
        None \<Rightarrow> (- 1, c)
      | Some t \<Rightarrow> (t - m_previous_time c, c))"

section \<open>Concrete inputs\<close>

text \<open>Collaborator answers and key states used to evaluate the operations.\<close>

definition all_start :: "manager \<Rightarrow> int" where
  "all_start m = 0"

definition ecs_fails :: "manager \<Rightarrow> int" where
  "ecs_fails m = (if m = ECSManager then - 1 else 0)"

definition env_ok :: startUp_env where
  "env_ok = \<lparr>Manager_startUp = 0, mgr_startUp = all_start, registerSystem = True,
             scenePath = ''Scene/Game.scn'', loadScene_first = True,
             saveScene_result = True, loadScene_retry = True\<rparr>"

definition no_key :: "int \<Rightarrow> bool" where
  "no_key k = False"

definition escape_key :: "int \<Rightarrow> bool" where
  "escape_key k = (k = GLFW_KEY_ESCAPE)"

section \<open>Effect of each operation on the members and on the trace\<close>

lemmas ops = emit_def writeLog_def setGameOver_def Let_def

lemmas getters = running_def getGameOver_def getStepCount_def

lemmas inputs = env_ok_def all_start_def ecs_fails_def no_key_def escape_key_def

lemma smod_100_iff: "(k::int) smod 100 = 0 \<longleftrightarrow> k mod 100 = 0"
  by (auto simp: signed_modulo_int_def sgn_if abs_if zmod_zminus1_eq_if split: if_splits)

lemma trace_update:
  "trace (update keys dt s) = trace s @
     (if sint (m_step_count s + 1) smod 100 = 0
      then [WriteLog ''GameManager::update() - Step count: %d''
              [ArgInt (sint (m_step_count s + 1))]]
      else []) @
     [IsKeyJustPressed GLFW_KEY_ESCAPE (keys GLFW_KEY_ESCAPE)] @
     (if keys GLFW_KEY_ESCAPE
      then [AssignGameOver True,
            WriteLog ''GameManager::setGameOver() - Game over set to true'' [],
            WriteLog ''GameManager::update() - Escape key pressed, setting game over'' []]
      else []) @
     [UpdateSystems dt]"
  by (simp add: update_def ops)

lemma step_update: "m_step_count (update keys dt s) = m_step_count s + 1"
  by (simp add: update_def ops)

lemma game_over_update:
  "m_game_over (update keys dt s) = (keys GLFW_KEY_ESCAPE \<or> m_game_over s)"
  by (simp add: update_def ops)

lemma step_updates: "m_step_count (updates frs s) = m_step_count s + of_nat (length frs)"
  by (induction frs arbitrary: s) (simp_all add: step_update)

lemma game_over_updates:
  "m_game_over (updates frs s) = (m_game_over s \<or> (\<exists>fr \<in> set frs. fst fr GLFW_KEY_ESCAPE))"
  by (induction frs arbitrary: s) (auto simp: game_over_update)

lemma trace_shutDown:
  "trace (shutDown s) = trace s @
     [WriteLog ''GameManager::shutDown() - Shutting down GameManager'' [],
      AssignGameOver True,
      WriteLog ''GameManager::setGameOver() - Game over set to true'' [],
      ShutDown SerialisationManager, ShutDown ECSManager, ShutDown InputManager,
      ShutDown LogManager, ManagerShutDown]"
  by (simp add: shutDown_def setGameOver_default_def ops)

lemma game_over_shutDown: "m_game_over (shutDown s)"
  by (simp add: shutDown_def setGameOver_default_def ops)

lemma step_shutDown: "m_step_count (shutDown s) = m_step_count s"
  by (simp add: shutDown_def setGameOver_default_def ops)

lemma game_over_setGameOver: "m_game_over (setGameOver b s) = b"
  by (simp add: ops)

lemma step_setGameOver: "m_step_count (setGameOver b s) = m_step_count s"
  by (simp add: ops)

lemma startUp_returns: "fst (startUp env s) = 0 \<or> fst (startUp env s) = - 1"
  by (simp add: startUp_def ops)

lemma startUp_success:
  "fst (startUp env s) = 0 \<Longrightarrow>
     m_step_count (snd (startUp env s)) = 0 \<and> \<not> m_game_over (snd (startUp env s))"
  by (simp add: startUp_def ops split: if_splits)

lemma startUp_failure:
  "fst (startUp env s) \<noteq> 0 \<Longrightarrow>
     m_step_count (snd (startUp env s)) = m_step_count s \<and>
     m_game_over (snd (startUp env s)) = m_game_over s"
  by (simp add: startUp_def ops split: if_splits)

lemma startUp_env_ok: "fst (startUp env_ok s) = 0"
  by (simp add: startUp_def ops inputs)

text \<open>Reading an \<open>int\<close> counter: within its range the word is the number.\<close>

lemma sint_of_nat_int32: "n < 2 ^ 31 \<Longrightarrow> sint (of_nat n :: 32 word) = int n"
proof -
  assume "n < 2 ^ 31"
  then have "int n < 2 ^ 31" by (metis of_nat_less_iff of_nat_numeral of_nat_power)
  then show ?thesis
    by (simp add: signed_of_nat signed_take_bit_int_eq_self)
qed

lemma sint_succ_int32:
  "sint (w :: 32 word) < 2147483647 \<Longrightarrow> sint (w + 1) = sint w + 1"
proof -
  assume "sint w < 2147483647"
  moreover have "- (2 ^ 31) \<le> sint w" using sint_ge [of w] by simp
  ultimately show ?thesis
    by (simp add: sint_word_add signed_take_bit_int_eq_self)
qed

lemma game_over_exec:
  "\<not> may_resume c \<Longrightarrow> m_game_over s \<Longrightarrow> m_game_over (exec c s)"
  by (cases c) (simp_all add: game_over_update game_over_shutDown game_over_setGameOver)

lemma game_over_run:
  "\<forall>c \<in> set cs. \<not> may_resume c \<Longrightarrow> m_game_over s \<Longrightarrow> m_game_over (run cs s)"
  by (induction cs arbitrary: s) (simp_all add: game_over_exec)

section \<open>Startup with rollback\<close>

text \<open>
  C1. Let the parent's \<open>startUp\<close> succeed, let the first \<open>k - 1\<close> managers of the startup
  order (log, input, entity-component, persistence) start and the \<open>k\<close>-th fail. Then
  \<open>startUp\<close> returns -1; the managers it called \<open>startUp\<close> on are exactly the first
  \<open>k\<close>, in order, and it then shut down the first \<open>k - 1\<close> in reverse order, so no
  manager after the \<open>k\<close>-th was started; and of the managers this call started none is
  left running.
\<close>

theorem startUp_rollback:
  assumes parent: "Manager_startUp env = 0"
    and k: "1 \<le> k" "k \<le> length startup_order"
    and before: "\<forall>m \<in> set (take (k - 1) startup_order). mgr_startUp env m = 0"
    and fails: "mgr_startUp env (startup_order ! (k - 1)) \<noteq> 0"
  shows "fst (startUp env s) = - 1 \<and>
         filter is_lifecycle (added s (snd (startUp env s))) =
           map (\<lambda>m. StartUp m 0) (take (k - 1) startup_order) @
           [StartUp (startup_order ! (k - 1)) (mgr_startUp env (startup_order ! (k - 1)))] @
           map ShutDown (rev (take (k - 1) startup_order)) \<and>
         left_running (added s (snd (startUp env s))) [] = []"
proof -
  from k have "k = 1 \<or> k = 2 \<or> k = 3 \<or> k = 4"
    unfolding startup_order_def by (simp del: One_nat_def) arith
  then show ?thesis
  proof (elim disjE)
    assume "k = 1"
    with parent fails show ?thesis
      by (simp add: startUp_def ops added_def startup_order_def)
  next
    assume "k = 2"
    with parent before fails show ?thesis
      by (simp add: startUp_def ops added_def startup_order_def)
  next
    assume "k = 3"
    with parent before fails show ?thesis
      by (simp add: startUp_def ops added_def startup_order_def)
  next
    assume "k = 4"
    with parent before fails show ?thesis
      by (simp add: startUp_def ops added_def startup_order_def)
  qed
qed

theorem startUp_rollback_witness:
  "Manager_startUp (env_ok\<lparr>mgr_startUp := ecs_fails\<rparr>) = 0 \<and>
   take (3 - 1) startup_order = [LogManager, InputManager] \<and>
   mgr_startUp (env_ok\<lparr>mgr_startUp := ecs_fails\<rparr>) LogManager = 0 \<and>
   mgr_startUp (env_ok\<lparr>mgr_startUp := ecs_fails\<rparr>) InputManager = 0 \<and>
   mgr_startUp (env_ok\<lparr>mgr_startUp := ecs_fails\<rparr>) (startup_order ! (3 - 1)) \<noteq> 0 \<and>
   fst (startUp (env_ok\<lparr>mgr_startUp := ecs_fails\<rparr>) (GameManager_new :: real GameManager))
     = - 1 \<and>
   filter is_lifecycle
     (added (GameManager_new :: real GameManager)
        (snd (startUp (env_ok\<lparr>mgr_startUp := ecs_fails\<rparr>) GameManager_new))) =
     [StartUp LogManager 0, StartUp InputManager 0, StartUp ECSManager (- 1),
      ShutDown InputManager, ShutDown LogManager]"
proof -
  let ?env = "env_ok\<lparr>mgr_startUp := ecs_fails\<rparr>"
  have h1: "Manager_startUp ?env = 0"
    by (simp add: inputs)
  have h2: "(1::nat) \<le> 3" and h3: "3 \<le> length startup_order"
    by (simp_all add: startup_order_def)
  have h4: "\<forall>m \<in> set (take (3 - 1) startup_order). mgr_startUp ?env m = 0"
    by (simp add: inputs startup_order_def)
  have h5: "mgr_startUp ?env (startup_order ! (3 - 1)) \<noteq> 0"
    by (simp add: inputs startup_order_def)
  show ?thesis
    using h1 h4 h5
      startUp_rollback [OF h1 h2 h3 h4 h5, of "GameManager_new :: real GameManager"]
    by (simp add: inputs startup_order_def)
qed

section \<open>Counting frames\<close>

text \<open>
  C2. After a \<open>startUp\<close> that returned 0 the step count is 0 and the game is running.
  Every \<open>update\<close> adds one to the \<open>int\<close> counter (lemma \<open>step_update\<close>), so after
  \<open>n\<close> calls of \<open>update\<close> the step count is \<open>n\<close>, for every \<open>n\<close> an \<open>int\<close>
  can hold (\<open>n < 2 ^ 31\<close>); with no press of the escape key in those frames the game is
  still running.
\<close>

theorem update_count:
  assumes ok: "fst (startUp env s) = 0"
    and n: "length frs < 2 ^ 31"
    and quiet: "\<forall>fr \<in> set frs. \<not> fst fr GLFW_KEY_ESCAPE"
  shows "getStepCount (snd (startUp env s)) = 0 \<and>
         running (snd (startUp env s)) \<and>
         getStepCount (updates frs (snd (startUp env s))) = int (length frs) \<and>
         running (updates frs (snd (startUp env s)))"
  using startUp_success [OF ok] n quiet
  by (simp add: getters step_updates game_over_updates sint_of_nat_int32)

theorem update_count_witness:
  "fst (startUp env_ok (GameManager_new :: real GameManager)) = 0 \<and>
   getStepCount (updates [(no_key, 1), (no_key, 2), (no_key, 3 :: real)]
                   (snd (startUp env_ok GameManager_new))) = 3 \<and>
   running (updates [(no_key, 1), (no_key, 2), (no_key, 3 :: real)]
              (snd (startUp env_ok GameManager_new)))"
proof -
  let ?frs = "[(no_key, 1), (no_key, 2), (no_key, 3 :: real)]"
  have h1: "fst (startUp env_ok (GameManager_new :: real GameManager)) = 0"
    by (rule startUp_env_ok)
  have h2: "length ?frs < 2 ^ 31" by simp
  have h3: "\<forall>fr \<in> set ?frs. \<not> fst fr GLFW_KEY_ESCAPE" by (simp add: inputs)
  show ?thesis using h1 update_count [OF h1 h2 h3] by simp
qed

text \<open>
  Without the bound the count is not the number of calls: \<open>getStepCount\<close> returns an
  \<open>int\<close>, and after \<open>2 ^ 31\<close> frames with no key pressed the counter has passed
  \<open>INT_MAX\<close> and reads \<open>- (2 ^ 31)\<close>.
\<close>

theorem update_count_overflow:
  "fst (startUp env_ok (GameManager_new :: real GameManager)) = 0 \<and>
   length (replicate (2 ^ 31) (no_key, 0 :: real)) = 2 ^ 31 \<and>
   getStepCount (updates (replicate (2 ^ 31) (no_key, 0 :: real))
                   (snd (startUp env_ok GameManager_new))) = - (2 ^ 31)"
proof -
  have ok: "fst (startUp env_ok (GameManager_new :: real GameManager)) = 0"
    by (rule startUp_env_ok)
  have "m_step_count (updates (replicate (2 ^ 31) (no_key, 0 :: real))
                   (snd (startUp env_ok GameManager_new))) = (2 ^ 31 :: 32 word)"
    using startUp_success [OF ok] by (simp add: step_updates)
  then show ?thesis using ok by (simp add: getters)
qed

section \<open>Termination request\<close>

text \<open>
  C3. When the input manager reports the escape key as just pressed during an
  \<open>update\<close>, the game is no longer running when that \<open>update\<close> returns, and it stays
  so through every later sequence of calls of \<open>update\<close>, \<open>shutDown\<close>,
  \<open>setGameOver(true)\<close> and the getters, that is, until the next \<open>startUp\<close> or a call
  of \<open>setGameOver(false)\<close>.
\<close>

theorem escape_stops_running:
  assumes esc: "keys GLFW_KEY_ESCAPE"
    and quiet: "\<forall>c \<in> set cs. \<not> may_resume c"
  shows "\<not> running (update keys dt s) \<and>
         (\<forall>n \<le> length cs. \<not> running (run (take n cs) (update keys dt s)))"
proof -
  have stopped: "m_game_over (update keys dt s)"
    using esc by (simp add: game_over_update)
  have "m_game_over (run (take n cs) (update keys dt s))" for n
  proof (rule game_over_run [OF _ stopped])
    show "\<forall>c \<in> set (take n cs). \<not> may_resume c"
      using quiet by (meson in_set_takeD)
  qed
  with stopped show ?thesis by (simp add: getters)
qed

theorem escape_stops_running_witness:
  "escape_key GLFW_KEY_ESCAPE \<and>
   \<not> running (update escape_key (0 :: real) GameManager_new) \<and>
   \<not> running (run [CallUpdate no_key 0, CallGetGameOver, CallSetGameOver True, CallShutDown]
                 (update escape_key (0 :: real) GameManager_new))"
proof -
  let ?cs = "[CallUpdate no_key 0, CallGetGameOver, CallSetGameOver True, CallShutDown]
               :: real call list"
  have h1: "escape_key GLFW_KEY_ESCAPE" by (simp add: inputs)
  have h2: "\<forall>c \<in> set ?cs. \<not> may_resume c" by simp
  note inst = escape_stops_running [of escape_key ?cs 0 GameManager_new, OF h1 h2]
  from inst have "\<not> running (run (take (length ?cs) ?cs) (update escape_key 0 GameManager_new))"
    by blast
  with inst h1 show ?thesis by simp
qed

text \<open>
  \<open>setGameOver\<close> is public and takes the new value: after an \<open>update\<close> that saw the
  escape key, \<open>setGameOver(false)\<close> makes the game run again with no \<open>startUp\<close>.
\<close>

theorem resume_after_escape:
  "\<not> running (update escape_key (0 :: real) (snd (startUp env_ok GameManager_new))) \<and>
   running (run [CallSetGameOver False]
              (update escape_key (0 :: real) (snd (startUp env_ok GameManager_new))))"
  by (simp add: getters game_over_update game_over_setGameOver inputs)

section \<open>Heartbeat\<close>

text \<open>
  C4. Whatever the state in which \<open>update\<close> is called, and so in every sequence of
  calls, the call writes the heartbeat record "Step count: %d" exactly when the step count
  after the increment is divisible by 100, then once and with that step count as its
  argument; otherwise it writes no heartbeat.
\<close>

theorem heartbeat_every_100:
  "filter is_heartbeat (added s (update keys dt s)) =
     (if getStepCount (update keys dt s) mod 100 = 0
      then [WriteLog ''GameManager::update() - Step count: %d''
              [ArgInt (getStepCount (update keys dt s))]]
      else [])"
  by (simp add: added_def trace_update getters step_update smod_100_iff)

theorem heartbeat_every_100_witness:
  "getStepCount (update no_key (0 :: real) (GameManager_new\<lparr>m_step_count := 99\<rparr>)) mod 100 = 0 \<and>
   filter is_heartbeat
     (added (GameManager_new\<lparr>m_step_count := 99\<rparr>)
        (update no_key (0 :: real) (GameManager_new\<lparr>m_step_count := 99\<rparr>))) =
     [WriteLog ''GameManager::update() - Step count: %d'' [ArgInt 100]] \<and>
   filter is_heartbeat
     (added (GameManager_new\<lparr>m_step_count := 100\<rparr>)
        (update no_key (0 :: real) (GameManager_new\<lparr>m_step_count := 100\<rparr>))) = []"
  using heartbeat_every_100 [of "GameManager_new\<lparr>m_step_count := 99\<rparr>" no_key "0 :: real"]
    heartbeat_every_100 [of "GameManager_new\<lparr>m_step_count := 100\<rparr>" no_key "0 :: real"]
  by (simp add: getters step_update GameManager_new_def)

section \<open>Shutdown\<close>

text \<open>
  C5. In every state, \<open>shutDown\<close> first logs, then sets \<open>m_game_over\<close> (the running
  flag becomes false) before any manager is shut down, then shuts down the persistence,
  entity-component, input and log managers in this order, the reverse of the startup order,
  and then the parent. It is a total function of the state, it leaves no manager running
  and the game not running, also from the state the constructor leaves, where \<open>startUp\<close>
  was never called; the step count is untouched.
\<close>

theorem shutDown_reverse_order:
  "trace (shutDown s) = trace s @
     [WriteLog ''GameManager::shutDown() - Shutting down GameManager'' [],
      AssignGameOver True,
      WriteLog ''GameManager::setGameOver() - Game over set to true'' [],
      ShutDown SerialisationManager, ShutDown ECSManager, ShutDown InputManager,
      ShutDown LogManager, ManagerShutDown] \<and>
   filter is_lifecycle (added s (shutDown s)) = map ShutDown (rev startup_order) \<and>
   left_running (added s (shutDown s)) startup_order = [] \<and>
   \<not> running (shutDown s) \<and>
   \<not> running (shutDown GameManager_new) \<and>
   getStepCount (shutDown s) = getStepCount s"
  by (simp add: trace_shutDown added_def startup_order_def getters game_over_shutDown
      step_shutDown)

section \<open>The optional steps of startup\<close>

text \<open>
  C6. Once the parent and all four managers have started, \<open>startUp\<close> returns 0 whatever
  \<open>registerSystem\<close>, \<open>loadScene\<close> and \<open>saveScene\<close> answer. What it does is
  exactly this: it logs whether the input system was registered; it loads the scene; if
  that fails it logs so, saves the scene to the same path, loads it once more and logs the
  success or a warning; then it resets the step count and the game runs.
\<close>

theorem startUp_optional_steps:
  assumes parent: "Manager_startUp env = 0"
    and started: "\<forall>m \<in> set startup_order. mgr_startUp env m = 0"
  shows "fst (startUp env s) = 0 \<and>
         added s (snd (startUp env s)) =
           [ManagerStartUp 0,
            StartUp LogManager 0,
            WriteLog ''GameManager::startUp() - LogManager started successfully'' [],
            StartUp InputManager 0,
            WriteLog ''GameManager::startUp() - InputManager started successfully'' [],
            StartUp ECSManager 0,
            WriteLog ''GameManager::startUp() - ECSManager started successfully'' [],
            StartUp SerialisationManager 0,
            WriteLog ''GameManager::startUp() - SerialisationManager started successfully'' [],
            RegisterSystem (registerSystem env),
            WriteLog (if registerSystem env
                      then ''GameManager::startUp() - InputSystem registered successfully''
                      else ''GameManager::startUp() - Failed to register InputSystem'') []] @
           (if loadScene_first env
            then [LoadScene (scenePath env) True,
                  WriteLog ''GameManager::startUp() - Scene loaded successfully from %s''
                    [ArgStr (scenePath env)]]
            else [LoadScene (scenePath env) False,
                  WriteLog
                    ''GameManager::startUp() - Failed to load scene, creating default scene'' [],
                  SaveScene (scenePath env) (saveScene_result env),
                  LoadScene (scenePath env) (loadScene_retry env),
                  WriteLog (if loadScene_retry env
                            then ''GameManager::startUp() - Default scene loaded successfully''
                            else ''GameManager::startUp() - WARNING: Failed to load default scene'')
                    []]) @
           [AssignGameOver False] \<and>
         getStepCount (snd (startUp env s)) = 0 \<and>
         running (snd (startUp env s))"
proof -
  from started have all: "mgr_startUp env LogManager = 0" "mgr_startUp env InputManager = 0"
    "mgr_startUp env ECSManager = 0" "mgr_startUp env SerialisationManager = 0"
    by (simp_all add: startup_order_def)
  show ?thesis
    by (cases "registerSystem env"; cases "loadScene_first env"; cases "loadScene_retry env")
      (simp_all add: startUp_def ops added_def getters parent all)
qed

theorem startUp_optional_steps_witness:
  "Manager_startUp (env_ok\<lparr>registerSystem := False, loadScene_first := False,
                            loadScene_retry := False\<rparr>) = 0 \<and>
   fst (startUp (env_ok\<lparr>registerSystem := False, loadScene_first := False,
                         loadScene_retry := False\<rparr>) (GameManager_new :: real GameManager)) = 0 \<and>
   filter is_scene
     (added (GameManager_new :: real GameManager)
        (snd (startUp (env_ok\<lparr>registerSystem := False, loadScene_first := False,
                               loadScene_retry := False\<rparr>) GameManager_new))) =
     [LoadScene ''Scene/Game.scn'' False, SaveScene ''Scene/Game.scn'' True,
      LoadScene ''Scene/Game.scn'' False]"
proof -
  let ?env = "env_ok\<lparr>registerSystem := False, loadScene_first := False,
                      loadScene_retry := False\<rparr>"
  have h1: "Manager_startUp ?env = 0" by (simp add: inputs)
  have h2: "\<forall>m \<in> set startup_order. mgr_startUp ?env m = 0" by (simp add: inputs)
  show ?thesis
    using h1 startUp_optional_steps [OF h1 h2, of "GameManager_new :: real GameManager"]
    by (simp add: inputs)
qed

section \<open>What changes the step count and the running flag\<close>

text \<open>
  C7. For each public call and each state: the step count changes only inside
  \<open>update\<close>, which adds one to the \<open>int\<close> counter (it grows by exactly one while
  below \<open>INT_MAX\<close>), and inside a \<open>startUp\<close> that returns 0, which resets it to 0;
  the game goes from not running to running only inside a \<open>startUp\<close> that returns 0 or
  by \<open>setGameOver(false)\<close>; it goes from running to not running only by
  \<open>setGameOver(true)\<close>, by an \<open>update\<close> in which the escape key was just pressed,
  or inside \<open>shutDown\<close>.
\<close>

theorem member_changes:
  "(m_step_count (exec c s) \<noteq> m_step_count s \<longrightarrow>
      (\<exists>keys dt. c = CallUpdate keys dt \<and>
         m_step_count (exec c s) = m_step_count s + 1 \<and>
         (getStepCount s < 2147483647 \<longrightarrow> getStepCount (exec c s) = getStepCount s + 1)) \<or>
      (\<exists>env. c = CallStartUp env \<and> fst (startUp env s) = 0 \<and> getStepCount (exec c s) = 0)) \<and>
   (\<not> running s \<and> running (exec c s) \<longrightarrow>
      (\<exists>env. c = CallStartUp env \<and> fst (startUp env s) = 0) \<or> c = CallSetGameOver False) \<and>
   (running s \<and> \<not> running (exec c s) \<longrightarrow>
      c = CallSetGameOver True \<or>
      (\<exists>keys dt. c = CallUpdate keys dt \<and> keys GLFW_KEY_ESCAPE) \<or>
      c = CallShutDown)"
proof (cases c)
  case (CallStartUp env)
  show ?thesis
  proof (cases "fst (startUp env s) = 0")
    case True
    with CallStartUp startUp_success [OF True] show ?thesis
      by (simp add: getters)
  next
    case False
    with CallStartUp startUp_failure [OF False] show ?thesis
      by (simp add: getters)
  qed
next
  case (CallUpdate keys dt)
  then show ?thesis
    by (auto simp: getters step_update game_over_update sint_succ_int32)
next
  case CallShutDown
  then show ?thesis
    by (simp add: getters step_shutDown game_over_shutDown)
next
  case (CallSetGameOver b)
  then show ?thesis
    by (simp add: getters step_setGameOver game_over_setGameOver)
qed simp_all

theorem member_changes_witness:
  "running (snd (startUp env_ok (GameManager_new :: real GameManager))) \<and>
   \<not> running (exec (CallUpdate escape_key 0)
                 (snd (startUp env_ok (GameManager_new :: real GameManager)))) \<and>
   getStepCount (exec (CallUpdate escape_key 0)
                   (snd (startUp env_ok (GameManager_new :: real GameManager)))) = 1 \<and>
   \<not> running (shutDown (GameManager_new :: real GameManager)) \<and>
   running (exec (CallStartUp env_ok) (shutDown (GameManager_new :: real GameManager)))"
proof -
  let ?s = "snd (startUp env_ok (GameManager_new :: real GameManager))"
  let ?t = "shutDown (GameManager_new :: real GameManager)"
  have ok: "fst (startUp env_ok (GameManager_new :: real GameManager)) = 0"
    by (rule startUp_env_ok)
  have ok': "fst (startUp env_ok ?t) = 0"
    by (rule startUp_env_ok)
  have a: "running ?s" and a0: "m_step_count ?s = 0"
    using startUp_success [OF ok] by (simp_all add: getters)
  have b: "\<not> running (exec (CallUpdate escape_key 0) ?s)"
    by (simp add: getters game_over_update inputs)
  have c: "\<not> running ?t"
    by (simp add: getters game_over_shutDown)
  have d: "running (exec (CallStartUp env_ok) ?t)"
    using startUp_success [OF ok'] by (simp add: getters)
  have e: "m_step_count (exec (CallUpdate escape_key 0) ?s) \<noteq> m_step_count ?s"
    by (simp add: step_update)
  from member_changes [of "CallUpdate escape_key 0" ?s] e a0
  have "getStepCount (exec (CallUpdate escape_key 0) ?s) = 1"
    by (simp add: getters)
  with a b c d member_changes [of "CallStartUp env_ok" ?t] show ?thesis
    by simp
qed

text \<open>
  \<open>setGameOver(false)\<close> is a public call that makes a stopped game run again: here
  after \<open>shutDown\<close>, with no \<open>startUp\<close>.
\<close>

theorem setGameOver_false_resumes:
  "\<not> running (shutDown (GameManager_new :: real GameManager)) \<and>
   running (exec (CallSetGameOver False) (shutDown (GameManager_new :: real GameManager)))"
  by (simp add: getters game_over_shutDown game_over_setGameOver)

section \<open>The clock's reference point\<close>

text \<open>
  C8. \<open>split\<close> leaves the clock as it is, whatever the time source reads, so a
  \<open>delta\<close> after a \<open>split\<close> answers and resets as it would without the
  \<open>split\<close>; \<open>delta\<close> with a reading \<open>t\<close> sets the reference point to \<open>t\<close>,
  from which a later \<open>split\<close> measures.
\<close>

theorem split_keeps_reference:
  "snd (Clock_split now c) = c \<and>
   Clock_delta now2 (snd (Clock_split now1 c)) = Clock_delta now2 c \<and>
   m_previous_time (snd (Clock_delta (Some t) c)) = t \<and>
   fst (Clock_split (Some t) (snd (Clock_delta (Some t0) c))) = t - t0"
  by (simp add: Clock_split_def Clock_delta_def split: option.splits)

section \<open>Failed startup\<close>

text \<open>
  C9. When \<open>startUp\<close> returns -1, the step count and the running flag are what they
  were before the call, and the call made no assignment to \<open>m_game_over\<close>: the reset
  and the assignment are on the success path only.
\<close>

theorem failed_startUp_keeps_members:
  assumes "fst (startUp env s) = - 1"
  shows "getStepCount (snd (startUp env s)) = getStepCount s \<and>
         running (snd (startUp env s)) = running s \<and>
         AssignGameOver False \<notin> set (added s (snd (startUp env s)))"
proof -
  from assms have nz: "fst (startUp env s) \<noteq> 0" by simp
  have "AssignGameOver False \<notin> set (added s (snd (startUp env s)))"
  proof (cases "Manager_startUp env = 0 \<and> mgr_startUp env LogManager = 0 \<and>
      mgr_startUp env InputManager = 0 \<and> mgr_startUp env ECSManager = 0 \<and>
      mgr_startUp env SerialisationManager = 0")
    case True
    then have "fst (startUp env s) = 0"
      by (simp add: startUp_def Let_def)
    with assms show ?thesis by simp
  next
    case False
    then show ?thesis
      by (auto simp: startUp_def ops added_def)
  qed
  with startUp_failure [OF nz] show ?thesis by (simp add: getters)
qed

theorem failed_startUp_keeps_members_witness:
  "fst (startUp (env_ok\<lparr>mgr_startUp := ecs_fails\<rparr>)
          (GameManager_new\<lparr>m_game_over := True, m_step_count := 7\<rparr> :: real GameManager)) = - 1 \<and>
   getStepCount (snd (startUp (env_ok\<lparr>mgr_startUp := ecs_fails\<rparr>)
          (GameManager_new\<lparr>m_game_over := True, m_step_count := 7\<rparr> :: real GameManager))) = 7 \<and>
   \<not> running (snd (startUp (env_ok\<lparr>mgr_startUp := ecs_fails\<rparr>)
          (GameManager_new\<lparr>m_game_over := True, m_step_count := 7\<rparr> :: real GameManager)))"
proof -
  let ?env = "env_ok\<lparr>mgr_startUp := ecs_fails\<rparr>"
  let ?s = "GameManager_new\<lparr>m_game_over := True, m_step_count := 7\<rparr> :: real GameManager"
  have h: "fst (startUp ?env ?s) = - 1"
    by (simp add: startUp_def ops inputs)
  show ?thesis
    using h failed_startUp_keeps_members [OF h]
    by (simp add: getters GameManager_new_def)
qed

section \<open>Update does not look at the running flag\<close>

text \<open>
  C10. In every state \<open>update\<close> increments the step counter, asks the input manager
  about the escape key and ends by passing the frame time to \<open>updateSystems\<close>; the new
  counter and the events of the call are the same whatever \<open>m_game_over\<close> was, so also
  when the game is no longer running.
\<close>

theorem update_ignores_running:
  "m_step_count (update keys dt s) = m_step_count s + 1 \<and>
   added s (update keys dt s) =
     (if getStepCount (update keys dt s) mod 100 = 0
      then [WriteLog ''GameManager::update() - Step count: %d''
              [ArgInt (getStepCount (update keys dt s))]]
      else []) @
     [IsKeyJustPressed GLFW_KEY_ESCAPE (keys GLFW_KEY_ESCAPE)] @
     (if keys GLFW_KEY_ESCAPE
      then [AssignGameOver True,
            WriteLog ''GameManager::setGameOver() - Game over set to true'' [],
            WriteLog ''GameManager::update() - Escape key pressed, setting game over'' []]
      else []) @
     [UpdateSystems dt] \<and>
   m_step_count (update keys dt (s\<lparr>m_game_over := b\<rparr>)) = m_step_count (update keys dt s) \<and>
   added (s\<lparr>m_game_over := b\<rparr>) (update keys dt (s\<lparr>m_game_over := b\<rparr>)) =
     added s (update keys dt s)"
  by (simp add: added_def trace_update getters step_update smod_100_iff)

theorem update_ignores_running_witness:
  "m_step_count (update escape_key (5 :: real) (shutDown GameManager_new)) = 1 \<and>
   added (shutDown GameManager_new) (update escape_key (5 :: real) (shutDown GameManager_new)) =
     [IsKeyJustPressed GLFW_KEY_ESCAPE True,
      AssignGameOver True,
      WriteLog ''GameManager::setGameOver() - Game over set to true'' [],
      WriteLog ''GameManager::update() - Escape key pressed, setting game over'' [],
      UpdateSystems 5]"
  using update_ignores_running [of escape_key "5 :: real" "shutDown GameManager_new"]
  by (simp add: getters step_update step_shutDown inputs GameManager_new_def)

end
